theory Spec2Isabelle
  imports Main
begin

section \<open>Alumni portal login and registration controller (login.js)\<close>

text \<open>
  A shallow embedding of \<^verbatim>\<open>src/hackathon/login.js\<close>. The page the script drives
  (forms, message area, department dropdown, submit buttons), the browser's
  \<^verbatim>\<open>localStorage\<close>, the pending \<^verbatim>\<open>setTimeout\<close> callbacks and the requests handed to
  \<^verbatim>\<open>fetch\<close> are fields of one record, and every function of the script is a function
  on that record. Exceptions are values of the type \<open>error\<close>.
\<close>

subsection \<open>Strings\<close>

text \<open>
  A string is a list of code units. The white space that \<^verbatim>\<open>trim\<close> and \<^verbatim>\<open>parseInt\<close>
  skip is, among the code units below 256: TAB, LF, VT, FF, CR, SP and NBSP.
\<close>

definition isWhiteSpace :: "char \<Rightarrow> bool" where
  "isWhiteSpace c =
     (c = CHR 0x09 \<or> c = CHR 0x0A \<or> c = CHR 0x0B \<or> c = CHR 0x0C \<or> c = CHR 0x0D
      \<or> c = CHR 0x20 \<or> c = CHR 0xA0)"

definition isLineTerminator :: "char \<Rightarrow> bool" where
  "isLineTerminator c = (c = CHR 0x0A \<or> c = CHR 0x0D)"

definition isDecimalDigit :: "char \<Rightarrow> bool" where
  "isDecimalDigit c = (48 \<le> (of_char c :: nat) \<and> (of_char c :: nat) \<le> 57)"

definition isAsciiLetter :: "char \<Rightarrow> bool" where
  "isAsciiLetter c =
     ((65 \<le> (of_char c :: nat) \<and> (of_char c :: nat) \<le> 90)
      \<or> (97 \<le> (of_char c :: nat) \<and> (of_char c :: nat) \<le> 122))"

text \<open>\<^verbatim>\<open>String.prototype.trim\<close>.\<close>

definition trim :: "string \<Rightarrow> string" where
  "trim s = rev (dropWhile isWhiteSpace (rev (dropWhile isWhiteSpace s)))"

text \<open>\<^verbatim>\<open>String.prototype.includes\<close>: the argument occurs somewhere in the string.\<close>

fun includes_str :: "string \<Rightarrow> string \<Rightarrow> bool" where
  "includes_str [] sub = (sub = [])"
| "includes_str (c # cs) sub = (take (length sub) (c # cs) = sub \<or> includes_str cs sub)"

text \<open>The decimal rendering of a number in a template literal, as for \<^verbatim>\<open>response.status\<close>.\<close>

fun show_nat :: "nat \<Rightarrow> string" where
  "show_nat n =
     (if n < 10 then [''0123456789'' ! n]
      else show_nat (n div 10) @ [''0123456789'' ! (n mod 10)])"

declare show_nat.simps [simp del]

text \<open>\<^verbatim>\<open>a || b\<close> on a value that is a string or \<^verbatim>\<open>undefined\<close>: the empty string and
  \<^verbatim>\<open>undefined\<close> are falsy.\<close>

fun truthy :: "string option \<Rightarrow> bool" where
  "truthy None = False"
| "truthy (Some v) = (v \<noteq> [])"

fun orElse :: "string option \<Rightarrow> string \<Rightarrow> string" where
  "orElse None d = d"
| "orElse (Some v) d = (if v \<noteq> [] then v else d)"

subsection \<open>Errors and JSON values\<close>

datatype error = TypeError string | SyntaxError string | Error string

fun error_message :: "error \<Rightarrow> string" where
  "error_message (TypeError m) = m"
| "error_message (SyntaxError m) = m"
| "error_message (Error m) = m"

text \<open>
  A value produced by \<^verbatim>\<open>JSON.parse\<close>. An object is the list of its properties, each
  name once. A number is given by the text that converting it to a string yields
  (\<^verbatim>\<open>1500\<close> for the literal \<^verbatim>\<open>1.5e3\<close>); the script never computes with one. Zero, the
  only falsy number that \<^verbatim>\<open>JSON.parse\<close> yields, is the text \<^verbatim>\<open>0\<close>.
\<close>

datatype json =
    JNull
  | JBool bool
  | JNum string
  | JStr string
  | JArr "json list"
  | JObj "(string \<times> json) list"

fun json_truthy :: "json \<Rightarrow> bool" where
  "json_truthy JNull = False"
| "json_truthy (JBool b) = b"
| "json_truthy (JNum n) = (n \<noteq> ''0'')"
| "json_truthy (JStr v) = (v \<noteq> [])"
| "json_truthy (JArr vs) = True"
| "json_truthy (JObj kvs) = True"

text \<open>The truthiness of what a property read gives; \<open>None\<close> is \<^verbatim>\<open>undefined\<close>.\<close>

fun truthy_value :: "json option \<Rightarrow> bool" where
  "truthy_value None = False"
| "truthy_value (Some v) = json_truthy v"

text \<open>
  Reading a property of a parsed value. The script reads the names \<^verbatim>\<open>message\<close>,
  \<^verbatim>\<open>success\<close>, \<^verbatim>\<open>token\<close>, \<^verbatim>\<open>user\<close>, \<^verbatim>\<open>redirectUrl\<close> and \<^verbatim>\<open>name\<close>; no object,
  array, string, number or boolean inherits one of them, so only an object that has the
  property itself gives a value. Reading a property of \<^verbatim>\<open>null\<close> throws.
\<close>

fun readOwn :: "json \<Rightarrow> string \<Rightarrow> json option" where
  "readOwn (JObj kvs) k = map_of kvs k"
| "readOwn JNull k = None"
| "readOwn (JBool b) k = None"
| "readOwn (JNum n) k = None"
| "readOwn (JStr v) k = None"
| "readOwn (JArr vs) k = None"

definition getProperty :: "json \<Rightarrow> string \<Rightarrow> error + json option" where
  "getProperty v k =
     (if v = JNull then Inl (TypeError (''Cannot read properties of null (reading '' @ k @ '')''))
      else Inr (readOwn v k))"

text \<open>\<^verbatim>\<open>Array.prototype.join\<close> with a comma.\<close>

fun join_comma :: "string list \<Rightarrow> string" where
  "join_comma [] = []"
| "join_comma [x] = x"
| "join_comma (x # y # ys) = x @ '','' @ join_comma (y # ys)"

text \<open>
  The conversion of a value to a string, as the \<^verbatim>\<open>Error\<close> constructor, a template
  literal, \<^verbatim>\<open>localStorage.setItem\<close>, \<^verbatim>\<open>textContent\<close> and \<^verbatim>\<open>location.href\<close> apply it.
  An array is its elements joined by commas, \<^verbatim>\<open>null\<close> elements counting as empty. An
  object is \<^verbatim>\<open>[object Object]\<close>, unless it has a property \<^verbatim>\<open>toString\<close> of its own:
  that is no function, and the conversion throws.
\<close>

fun ToString :: "json \<Rightarrow> error + string"
  and ToString_elements :: "json list \<Rightarrow> error + string list" where
  "ToString JNull = Inr ''null''"
| "ToString (JBool b) = Inr (if b then ''true'' else ''false'')"
| "ToString (JNum n) = Inr n"
| "ToString (JStr v) = Inr v"
| "ToString (JArr vs) =
     (case ToString_elements vs of Inl e \<Rightarrow> Inl e | Inr ts \<Rightarrow> Inr (join_comma ts))"
| "ToString (JObj kvs) =
     (if map_of kvs ''toString'' \<noteq> None
      then Inl (TypeError ''Cannot convert object to primitive value'')
      else Inr ''[object Object]'')"
| "ToString_elements [] = Inr []"
| "ToString_elements (v # vs) =
     (case (if v = JNull then Inr [] else ToString v) of
        Inl e \<Rightarrow> Inl e
      | Inr t \<Rightarrow>
          (case ToString_elements vs of Inl e \<Rightarrow> Inl e | Inr ts \<Rightarrow> Inr (t # ts)))"

text \<open>\<^verbatim>\<open>a || d\<close> converted to a string, for a value \<open>a\<close> read from a parsed body and a
  string \<open>d\<close>.\<close>

definition orString :: "json option \<Rightarrow> string \<Rightarrow> error + string" where
  "orString a d =
     (case a of
        None \<Rightarrow> Inr d
      | Some v \<Rightarrow> if json_truthy v then ToString v else Inr d)"

subsection \<open>Field validation functions\<close>

text \<open>\<^verbatim>\<open>/^[A-Za-z0-9]{6,}$/\<close>\<close>

definition validateRegistrationNumber :: "string \<Rightarrow> bool" where
  "validateRegistrationNumber regNo =
     (list_all (\<lambda>c. isAsciiLetter c \<or> isDecimalDigit c) regNo \<and> 6 \<le> length regNo)"

text \<open>
  \<^verbatim>\<open>parseInt(string)\<close> with no radix: leading white space is skipped, one sign is
  read, a \<^verbatim>\<open>0x\<close> or \<^verbatim>\<open>0X\<close> prefix selects radix 16, and the longest run of digits
  of the radix is the numeral; whatever follows it is ignored. With no digit the result
  is \<^verbatim>\<open>NaN\<close>, here \<open>None\<close>. The result is kept as the exact integer: it is only
  compared with 1970 and 2025, which rounding to a double does not change.
\<close>

definition digitValue :: "nat \<Rightarrow> char \<Rightarrow> nat option" where
  "digitValue radix c =
     (let n = (of_char c :: nat);
          v = (if 48 \<le> n \<and> n \<le> 57 then Some (n - 48)
               else if 97 \<le> n \<and> n \<le> 122 then Some (n - 87)
               else if 65 \<le> n \<and> n \<le> 90 then Some (n - 55)
               else None)
      in case v of None \<Rightarrow> None | Some d \<Rightarrow> if d < radix then Some d else None)"

definition isRadixDigit :: "nat \<Rightarrow> char \<Rightarrow> bool" where
  "isRadixDigit radix c = (digitValue radix c \<noteq> None)"

definition numeralValue :: "nat \<Rightarrow> string \<Rightarrow> nat" where
  "numeralValue radix Z = foldl (\<lambda>acc c. acc * radix + the (digitValue radix c)) 0 Z"

definition stripSign :: "string \<Rightarrow> string" where
  "stripSign S = (if S \<noteq> [] \<and> (hd S = CHR ''+'' \<or> hd S = CHR ''-'') then tl S else S)"

text \<open>The numeral of a string whose white space and sign have been removed.\<close>

definition parseNumeral :: "string \<Rightarrow> nat option" where
  "parseNumeral S1 =
     (let hex = (take 2 S1 = ''0x'' \<or> take 2 S1 = ''0X'');
          R = (if hex then 16 else 10);
          S2 = (if hex then drop 2 S1 else S1);
          Z = takeWhile (isRadixDigit R) S2
      in if Z = [] then None else Some (numeralValue R Z))"

definition parseInt :: "string \<Rightarrow> int option" where
  "parseInt inputString =
     (let S = dropWhile isWhiteSpace inputString;
          sign = (if S \<noteq> [] \<and> hd S = CHR ''-'' then - 1 else 1 :: int)
      in case parseNumeral (stripSign S) of
           None \<Rightarrow> None
         | Some mathInt \<Rightarrow> Some (sign * int mathInt))"

text \<open>\<^verbatim>\<open>numYear >= 1970 && numYear <= 2025\<close>; both comparisons are false on \<^verbatim>\<open>NaN\<close>.\<close>

definition validatePassingYear :: "string \<Rightarrow> bool" where
  "validatePassingYear year =
     (case parseInt year of None \<Rightarrow> False | Some numYear \<Rightarrow> 1970 \<le> numYear \<and> numYear \<le> 2025)"

text \<open>
  \<^verbatim>\<open>/^(?=.*[A-Za-z])(?=.*\d)[A-Za-z\d@$!%*#?&]{8,}$/\<close>: each lookahead finds its
  character before the first line terminator (\<^verbatim>\<open>.\<close> stops there), and the whole
  string consists of at least eight characters of the class.
\<close>

definition isPasswordChar :: "char \<Rightarrow> bool" where
  "isPasswordChar c = (isAsciiLetter c \<or> isDecimalDigit c \<or> c \<in> set ''@$!%*#?&'')"

definition validatePassword :: "string \<Rightarrow> bool" where
  "validatePassword password =
     (list_ex isAsciiLetter (takeWhile (\<lambda>c. \<not> isLineTerminator c) password)
      \<and> list_ex isDecimalDigit (takeWhile (\<lambda>c. \<not> isLineTerminator c) password)
      \<and> list_all isPasswordChar password \<and> 8 \<le> length password)"

subsection \<open>The page, the storage and the pending timers\<close>

record button =
  loading :: bool
  disabled :: bool
  label :: string

text \<open>The inputs of the two forms, by element id. The two career inputs may be missing
  from the page (\<open>None\<close>).\<close>

record login_fields =
  el_loginRegNo :: string
  el_loginPassword :: string

record signup_fields =
  el_name :: string
  el_fatherName :: string
  el_course :: string
  el_department :: string
  el_regNumber :: string
  el_signupPassingYear :: string
  el_signupPassword :: string
  el_confirmPassword :: string
  el_currentPosition :: "string option"
  el_currentCompany :: "string option"

datatype form_id = LoginForm | SignupForm

text \<open>The callbacks the script hands to \<^verbatim>\<open>setTimeout\<close>. The redirect carries the
  conversion of its target to a string, which the callback makes when it assigns
  \<^verbatim>\<open>location.href\<close> and which may throw there.\<close>

datatype timer_action =
    HideMessage
  | DepartmentOpacityOne
  | SwitchToLogin
  | Redirect "error + string"

record request =
  url :: string
  http_method :: string
  headers :: "(string \<times> string) list"
  body :: "json option"

record page =
  loginFormActive :: bool
  signupFormActive :: bool
  loginFields :: login_fields
  loginDefaults :: login_fields
  signupFields :: signup_fields
  signupDefaults :: signup_fields
  departmentDisabled :: bool
  departmentOptions :: "(string \<times> string) list"
  departmentOpacity :: string
  messageText :: string
  messageClassName :: string
  iconClassName :: string
  messageShown :: bool
  loginButton :: button
  signupButton :: button
  localStorage :: "string \<rightharpoonup> string"
  timers :: "(nat \<times> timer_action) list"
  now :: nat
  location_href :: string
  requests :: "request list"
  uncaught :: "error list"

text \<open>
  \<open>loginFormActive\<close> and \<open>signupFormActive\<close> say whether the class \<^verbatim>\<open>active\<close> is on the
  form's container, \<open>messageShown\<close> whether \<^verbatim>\<open>show\<close> is on the message container.
  \<open>departmentOptions\<close> holds the options of the department dropdown as pairs of value and
  text. \<open>loginDefaults\<close> and \<open>signupDefaults\<close> are the values \<^verbatim>\<open>form.reset()\<close> restores.
  \<open>timers\<close> are the pending callbacks with the time, in milliseconds, at which each is
  due; \<open>requests\<close> are the calls handed to \<^verbatim>\<open>fetch\<close> so far; \<open>uncaught\<close> are the
  exceptions that left an event handler.
\<close>

definition setTimeout :: "timer_action \<Rightarrow> nat \<Rightarrow> page \<Rightarrow> page" where
  "setTimeout action delay s = s\<lparr>timers := timers s @ [(now s + delay, action)]\<rparr>"

subsection \<open>Department data and the dynamic department dropdown\<close>

definition departmentData :: "string \<rightharpoonup> string list" where
  "departmentData = map_of
     [(''UG'', [''ECONOMICS'', ''ENGLISH'', ''GEOGRAPHY'', ''HINDI'', ''HISTORY'',
                ''PHILOSOPHY'', ''POLITICAL SCIENCE'', ''PSYCHOLOGY'', ''URDU'',
                ''BOTANY'', ''CHEMISTRY'', ''MATHEMATICS'', ''PHYSICS'', ''ZOOLOGY'',
                ''BCA'', ''BBA'', ''BED'']),
      (''PG'', [''ECONOMICS'', ''GEOGRAPHY'', ''HINDI'', ''HISTORY'',
                ''POLITICAL SCIENCE'', ''PHYSICS'', ''CHEMISTRY''])]"

text \<open>
  \<open>departmentData\<close> is an object literal, so \<^verbatim>\<open>departmentData[key]\<close> also finds what
  the object inherits from \<^verbatim>\<open>Object.prototype\<close>: functions, and for \<^verbatim>\<open>__proto__\<close> the
  prototype itself. All of them are truthy and none has a \<^verbatim>\<open>forEach\<close>.
\<close>

definition Object_prototype_names :: "string list" where
  "Object_prototype_names =
     [''constructor'', ''hasOwnProperty'', ''isPrototypeOf'', ''propertyIsEnumerable'',
      ''toLocaleString'', ''toString'', ''valueOf'', ''__proto__'',
      ''__defineGetter__'', ''__defineSetter__'', ''__lookupGetter__'', ''__lookupSetter__'']"

datatype property = Undefined | OwnArray "string list" | Inherited

definition departmentData_get :: "string \<Rightarrow> property" where
  "departmentData_get key =
     (case departmentData key of
        Some departments \<Rightarrow> OwnArray departments
      | None \<Rightarrow> if key \<in> set Object_prototype_names then Inherited else Undefined)"

definition placeholder :: "(string \<times> string) list" where
  "placeholder = [([], ''Select Department'')]"

text \<open>Replacing the options of the dropdown leaves its first option, the placeholder,
  selected, so the value of the dropdown is the empty string.\<close>

definition resetDepartmentOptions :: "page \<Rightarrow> page" where
  "resetDepartmentOptions s =
     s\<lparr>departmentOptions := placeholder,
       signupFields := (signupFields s)\<lparr>el_department := []\<rparr>\<rparr>"

definition handleCourseChange :: "page \<Rightarrow> page" where
  "handleCourseChange s =
     (let selectedCourse = el_course (signupFields s);
          s1 = resetDepartmentOptions s
      in if selectedCourse \<noteq> [] \<and> departmentData_get selectedCourse \<noteq> Undefined then
           (let s2 = s1\<lparr>departmentDisabled := False\<rparr>
            in case departmentData_get selectedCourse of
                 OwnArray departments \<Rightarrow>
                   setTimeout DepartmentOpacityOne 150
                     (s2\<lparr>departmentOptions :=
                           departmentOptions s2 @ map (\<lambda>dept. (dept, dept)) departments,
                         departmentOpacity := ''0.5''\<rparr>)
               | _ \<Rightarrow>
                   s2\<lparr>uncaught := uncaught s2 @
                         [TypeError ''departmentData[selectedCourse].forEach is not a function'']\<rparr>)
         else s1\<lparr>departmentDisabled := True\<rparr>)"

text \<open>A course-change event: the course dropdown takes the chosen value and the
  listener runs.\<close>

definition courseChange :: "string \<Rightarrow> page \<Rightarrow> page" where
  "courseChange c s = handleCourseChange (s\<lparr>signupFields := (signupFields s)\<lparr>el_course := c\<rparr>\<rparr>)"

subsection \<open>Message display helpers\<close>

definition hideMessage :: "page \<Rightarrow> page" where
  "hideMessage s = s\<lparr>messageShown := False\<rparr>"

definition showMessage :: "string \<Rightarrow> string \<Rightarrow> page \<Rightarrow> page" where
  "showMessage text type s =
     setTimeout HideMessage 5000
       (s\<lparr>messageText := text,
          messageClassName := ''message '' @ type,
          iconClassName :=
            (if type = ''success'' then ''fas fa-check-circle''
             else if type = ''error'' then ''fas fa-exclamation-circle''
             else iconClassName s),
          messageShown := True\<rparr>)"

subsection \<open>Form switching logic\<close>

fun resetOptional :: "string option \<Rightarrow> string option \<Rightarrow> string option" where
  "resetOptional None d = None"
| "resetOptional (Some v) d = Some (case d of None \<Rightarrow> [] | Some dv \<Rightarrow> dv)"

definition resetLoginForm :: "page \<Rightarrow> page" where
  "resetLoginForm s = s\<lparr>loginFields := loginDefaults s\<rparr>"

definition resetSignupForm :: "page \<Rightarrow> page" where
  "resetSignupForm s =
     s\<lparr>signupFields := (signupDefaults s)
        \<lparr>el_currentPosition :=
           resetOptional (el_currentPosition (signupFields s)) (el_currentPosition (signupDefaults s)),
         el_currentCompany :=
           resetOptional (el_currentCompany (signupFields s)) (el_currentCompany (signupDefaults s))\<rparr>\<rparr>"

definition switchToSignup :: "page \<Rightarrow> page" where
  "switchToSignup s =
     resetLoginForm (hideMessage (s\<lparr>loginFormActive := False, signupFormActive := True\<rparr>))"

definition switchToLogin :: "page \<Rightarrow> page" where
  "switchToLogin s =
     resetDepartmentOptions
       ((resetSignupForm (hideMessage (s\<lparr>signupFormActive := False, loginFormActive := True\<rparr>)))
          \<lparr>departmentDisabled := True\<rparr>)"

subsection \<open>Timers\<close>

fun fire :: "timer_action \<Rightarrow> page \<Rightarrow> page" where
  "fire HideMessage s = hideMessage s"
| "fire DepartmentOpacityOne s = s\<lparr>departmentOpacity := ''1''\<rparr>"
| "fire SwitchToLogin s = switchToLogin s"
| "fire (Redirect target) s =
     (case target of
        Inl e \<Rightarrow> s\<lparr>uncaught := uncaught s @ [e]\<rparr>
      | Inr href \<Rightarrow> s\<lparr>location_href := href\<rparr>)"

text \<open>
  \<open>advance dt\<close> lets \<open>dt\<close> milliseconds pass with no other event: the callbacks that are
  due by then run, earliest first and in the order of their scheduling when due together,
  and leave the list. No callback of the script schedules another one.
\<close>

definition advance :: "nat \<Rightarrow> page \<Rightarrow> page" where
  "advance dt s =
     (let t = now s + dt;
          due = filter (\<lambda>(d, a). d \<le> t) (timers s);
          later = filter (\<lambda>(d, a). \<not> d \<le> t) (timers s)
      in foldl (\<lambda>s' (d, a). fire a s') (s\<lparr>timers := later, now := t\<rparr>) (sort_key fst due))"

subsection \<open>Button loading state\<close>

definition submitButton :: "form_id \<Rightarrow> page \<Rightarrow> button" where
  "submitButton f s = (case f of LoginForm \<Rightarrow> loginButton s | SignupForm \<Rightarrow> signupButton s)"

definition setSubmitButton :: "form_id \<Rightarrow> button \<Rightarrow> page \<Rightarrow> page" where
  "setSubmitButton f b s =
     (case f of LoginForm \<Rightarrow> s\<lparr>loginButton := b\<rparr> | SignupForm \<Rightarrow> s\<lparr>signupButton := b\<rparr>)"

text \<open>The button is named by its form; \<^verbatim>\<open>button.closest('#loginForm')\<close> finds
  something exactly for the button of the login form.\<close>

definition showLoadingState :: "form_id \<Rightarrow> bool \<Rightarrow> page \<Rightarrow> page" where
  "showLoadingState f isLoading s =
     (if isLoading then
        setSubmitButton f ((submitButton f s)\<lparr>loading := True, disabled := True,
                                              label := ''Processing...''\<rparr>) s
      else
        setSubmitButton f ((submitButton f s)\<lparr>loading := False, disabled := False,
                                              label := (if f = LoginForm then ''Sign In''
                                                        else ''Create Account'')\<rparr>) s)"

subsection \<open>Local storage and token helpers\<close>

definition gettoken :: "page \<Rightarrow> string option" where
  "gettoken s = localStorage s ''token''"

definition removetoken :: "page \<Rightarrow> page" where
  "removetoken s = s\<lparr>localStorage := (localStorage s)(''token'' := None)\<rparr>"

definition isUserLoggedIn :: "page \<Rightarrow> bool" where
  "isUserLoggedIn s = truthy (gettoken s)"

text \<open>\<^verbatim>\<open>JSON.parse\<close> is the host's; it is a parameter \<open>parse\<close> of what calls it.\<close>

definition getStoredUsers :: "(string \<Rightarrow> error + json) \<Rightarrow> page \<Rightarrow> error + json" where
  "getStoredUsers parse s =
     (case localStorage s ''users'' of
        None \<Rightarrow> Inr (JArr [])
      | Some users \<Rightarrow> if users \<noteq> [] then parse users else Inr (JArr []))"

subsection \<open>Signup data validation\<close>

record signup_data =
  name :: string
  fatherName :: string
  course :: string
  department :: string
  regNo :: string
  passingYear :: string
  password :: string
  confirmPassword :: string
  currentPosition :: string
  currentCompany :: string

text \<open>\<^verbatim>\<open>{ isValid: true }\<close> or \<^verbatim>\<open>{ isValid: false, message: ... }\<close>.\<close>

datatype validation_result = Valid | Invalid string

text \<open>The callback \<^verbatim>\<open>user => user.regNo === data.regNo\<close>: reading a property of
  \<^verbatim>\<open>null\<close> throws, and a value that is no object has no \<^verbatim>\<open>regNo\<close>.\<close>

fun regNoEquals :: "string \<Rightarrow> json \<Rightarrow> error + bool" where
  "regNoEquals r JNull = Inl (TypeError ''Cannot read properties of null (reading regNo)'')"
| "regNoEquals r (JObj kvs) = Inr (map_of kvs ''regNo'' = Some (JStr r))"
| "regNoEquals r (JBool b) = Inr False"
| "regNoEquals r (JNum n) = Inr False"
| "regNoEquals r (JStr v) = Inr False"
| "regNoEquals r (JArr vs) = Inr False"

text \<open>\<^verbatim>\<open>Array.prototype.find\<close>: the first element on which the callback is true.\<close>

fun array_find :: "(json \<Rightarrow> error + bool) \<Rightarrow> json list \<Rightarrow> error + json option" where
  "array_find p [] = Inr None"
| "array_find p (x # xs) =
     (case p x of
        Inl e \<Rightarrow> Inl e
      | Inr b \<Rightarrow> if b then Inr (Some x) else array_find p xs)"

text \<open>\<^verbatim>\<open>existingUsers.find(...)\<close>: only an array has a \<^verbatim>\<open>find\<close>.\<close>

definition findExistingUser :: "json \<Rightarrow> string \<Rightarrow> error + json option" where
  "findExistingUser existingUsers r =
     (case existingUsers of
        JArr us \<Rightarrow> array_find (regNoEquals r) us
      | JNull \<Rightarrow> Inl (TypeError ''Cannot read properties of null (reading find)'')
      | _ \<Rightarrow> Inl (TypeError ''existingUsers.find is not a function''))"

definition validateSignupData ::
  "(string \<Rightarrow> error + json) \<Rightarrow> page \<Rightarrow> signup_data \<Rightarrow> error + validation_result" where
  "validateSignupData parse s data =
     (if name data = [] \<or> fatherName data = [] \<or> course data = [] \<or> department data = []
         \<or> regNo data = [] \<or> passingYear data = [] \<or> password data = []
         \<or> confirmPassword data = [] then
        Inr (Invalid ''Please fill in all required fields'')
      else if \<not> validateRegistrationNumber (regNo data) then
        Inr (Invalid ''Invalid registration number format'')
      else
        (case getStoredUsers parse s of
           Inl e \<Rightarrow> Inl e
         | Inr existingUsers \<Rightarrow>
             (case findExistingUser existingUsers (regNo data) of
                Inl e \<Rightarrow> Inl e
              | Inr found \<Rightarrow>
                  if (case found of None \<Rightarrow> False | Some u \<Rightarrow> json_truthy u) then
                    Inr (Invalid ''Registration number already exists'')
                  else if \<not> validatePassingYear (passingYear data) then
                    Inr (Invalid ''Year must be between 1970 and 2025'')
                  else if \<not> validatePassword (password data) then
                    Inr (Invalid ''Password must be at least 8 characters with letters and numbers'')
                  else if password data \<noteq> confirmPassword data then
                    Inr (Invalid ''Passwords do not match'')
                  else Inr Valid)))"

subsection \<open>API configuration and helpers\<close>

definition API_BASE_URL :: string where
  "API_BASE_URL = ''https://setu.fit''"

text \<open>
  What \<^verbatim>\<open>fetch\<close> and \<^verbatim>\<open>response.json()\<close> give: \<^verbatim>\<open>fetch\<close> rejects with a
  \<^verbatim>\<open>TypeError\<close> whose message the browser chooses, or there is a response with a status
  and a body that is not JSON (\<^verbatim>\<open>json()\<close> rejects with a \<^verbatim>\<open>SyntaxError\<close>) or parses
  to some value. \<^verbatim>\<open>response.ok\<close> is true for a status from 200 to 299.
\<close>

datatype response_body = NotJson string | Parsed json

datatype fetch_result = FetchFailed string | FetchResponse nat response_body

definition response_ok :: "nat \<Rightarrow> bool" where
  "response_ok status = (200 \<le> status \<and> status \<le> 299)"

text \<open>\<^verbatim>\<open>makeApiCall\<close> up to the call of \<^verbatim>\<open>fetch\<close>: the request it hands over.\<close>

definition makeApiCall_request :: "string \<Rightarrow> string \<Rightarrow> json option \<Rightarrow> request" where
  "makeApiCall_request endpoint meth data =
     \<lparr>url = API_BASE_URL @ endpoint,
      http_method = meth,
      headers = [(''Content-Type'', ''application/json'')],
      body = (if truthy_value data \<and> (meth = ''POST'' \<or> meth = ''PUT'') then data else None)\<rparr>"

text \<open>\<^verbatim>\<open>makeApiCall\<close> from the answer of \<^verbatim>\<open>fetch\<close> on: the body is parsed first, then
  \<^verbatim>\<open>response.ok\<close> is looked at; whatever is thrown, also by reading \<^verbatim>\<open>result.message\<close>
  or by converting it for the \<^verbatim>\<open>Error\<close>, is thrown again.\<close>

definition makeApiCall_result :: "fetch_result \<Rightarrow> error + json" where
  "makeApiCall_result fr =
     (case fr of
        FetchFailed m \<Rightarrow> Inl (TypeError m)
      | FetchResponse status b \<Rightarrow>
          (case b of
             NotJson m \<Rightarrow> Inl (SyntaxError m)
           | Parsed result \<Rightarrow>
               if \<not> response_ok status then
                 (case getProperty result ''message'' of
                    Inl e \<Rightarrow> Inl e
                  | Inr m \<Rightarrow>
                      (case orString m (''HTTP error! status: '' @ show_nat status) of
                         Inl e \<Rightarrow> Inl e
                       | Inr txt \<Rightarrow> Inl (Error txt)))
               else Inr result))"

subsection \<open>Form submission handlers\<close>

text \<open>
  Each handler is split at its \<^verbatim>\<open>await\<close>: \<open>_submit\<close> is the handler up to the call of
  \<^verbatim>\<open>fetch\<close> and returns the request when one is made; \<open>_settle\<close> is the rest, run when
  \<^verbatim>\<open>fetch\<close> has answered. Other events may run in between. \<open>handleLogin\<close> and
  \<open>handleSignup\<close> are the two halves run with nothing in between.
\<close>

definition connectivityMessage :: string where
  "connectivityMessage = ''Unable to connect to server. Please check if the backend is running.''"

definition handleLogin_submit :: "page \<Rightarrow> page \<times> request option" where
  "handleLogin_submit s =
     (let loginRegNo = trim (el_loginRegNo (loginFields s));
          loginPassword = el_loginPassword (loginFields s)
      in if loginRegNo = [] \<or> loginPassword = [] then
           (showMessage ''Please fill in all required fields'' ''error'' s, None)
         else if \<not> validateRegistrationNumber loginRegNo then
           (showMessage ''Invalid registration number format'' ''error'' s, None)
         else
           (let s1 = showLoadingState LoginForm True s;
                req = makeApiCall_request ''/api/auth/login'' ''POST''
                        (Some (JObj [(''regNo'', JStr loginRegNo), (''password'', JStr loginPassword)]))
            in (s1\<lparr>requests := requests s1 @ [req]\<rparr>, Some req)))"

text \<open>The \<^verbatim>\<open>catch\<close> block of \<open>handleLogin\<close>.\<close>

definition handleLogin_catch :: "error \<Rightarrow> page \<Rightarrow> page" where
  "handleLogin_catch err s =
     (let s1 = showLoadingState LoginForm False s
      in if includes_str (error_message err) ''fetch'' then
           showMessage connectivityMessage ''error'' s1
         else
           showMessage (orElse (Some (error_message err)) ''Login failed. Please try again.'')
             ''error'' s1)"

text \<open>
  The rest of \<open>handleLogin\<close>. What is thrown inside the \<^verbatim>\<open>try\<close>, by \<^verbatim>\<open>makeApiCall\<close>,
  by reading \<^verbatim>\<open>response.success\<close> of \<^verbatim>\<open>null\<close> or by converting a value to a string,
  goes to the \<^verbatim>\<open>catch\<close> block with the page as it is then. \<^verbatim>\<open>response.user?.name\<close> is
  \<^verbatim>\<open>undefined\<close> when \<^verbatim>\<open>user\<close> is missing or \<^verbatim>\<open>null\<close>.
\<close>

definition userName :: "json \<Rightarrow> json option" where
  "userName response =
     (case readOwn response ''user'' of
        None \<Rightarrow> None
      | Some u \<Rightarrow> if u = JNull then None else readOwn u ''name'')"

definition storeToken :: "json \<Rightarrow> page \<Rightarrow> error + page" where
  "storeToken response s =
     (case readOwn response ''token'' of
        None \<Rightarrow> Inr s
      | Some t \<Rightarrow>
          if json_truthy t then
            (case ToString t of
               Inl e \<Rightarrow> Inl e
             | Inr v \<Rightarrow> Inr (s\<lparr>localStorage := (localStorage s)(''token'' \<mapsto> v)\<rparr>))
          else Inr s)"

definition handleLogin_settle :: "fetch_result \<Rightarrow> page \<Rightarrow> page" where
  "handleLogin_settle fr s =
     (case makeApiCall_result fr of
        Inl err \<Rightarrow> handleLogin_catch err s
      | Inr response \<Rightarrow>
          (let s1 = showLoadingState LoginForm False s
           in case getProperty response ''success'' of
                Inl e \<Rightarrow> handleLogin_catch e s1
              | Inr succeeded \<Rightarrow>
                  if truthy_value succeeded then
                    (case storeToken response s1 of
                       Inl e \<Rightarrow> handleLogin_catch e s1
                     | Inr s2 \<Rightarrow>
                         (case orString (userName response) ''User'' of
                            Inl e \<Rightarrow> handleLogin_catch e s2
                          | Inr who \<Rightarrow>
                              setTimeout
                                (Redirect (orString (readOwn response ''redirectUrl'') ''dashboard.html''))
                                1500
                                (showMessage (''Welcome back, '' @ who @ ''!'') ''success'' s2)))
                  else
                    (case orString (readOwn response ''message'') ''Login failed'' of
                       Inl e \<Rightarrow> handleLogin_catch e s1
                     | Inr m \<Rightarrow> showMessage m ''error'' s1)))"

definition handleLogin :: "fetch_result \<Rightarrow> page \<Rightarrow> page" where
  "handleLogin fr s =
     (case handleLogin_submit s of
        (s1, None) \<Rightarrow> s1
      | (s1, Some req) \<Rightarrow> handleLogin_settle fr s1)"

definition readSignupData :: "page \<Rightarrow> signup_data" where
  "readSignupData s =
     \<lparr>name = trim (el_name (signupFields s)),
      fatherName = trim (el_fatherName (signupFields s)),
      course = el_course (signupFields s),
      department = el_department (signupFields s),
      regNo = trim (el_regNumber (signupFields s)),
      passingYear = el_signupPassingYear (signupFields s),
      password = el_signupPassword (signupFields s),
      confirmPassword = el_confirmPassword (signupFields s),
      currentPosition =
        (case el_currentPosition (signupFields s) of None \<Rightarrow> [] | Some v \<Rightarrow> trim v),
      currentCompany =
        (case el_currentCompany (signupFields s) of None \<Rightarrow> [] | Some v \<Rightarrow> trim v)\<rparr>"

text \<open>\<^verbatim>\<open>const { confirmPassword, ...dataToSend } = signupData\<close>\<close>

definition dataToSend :: "signup_data \<Rightarrow> json" where
  "dataToSend data =
     JObj [(''name'', JStr (name data)),
           (''fatherName'', JStr (fatherName data)),
           (''course'', JStr (course data)),
           (''department'', JStr (department data)),
           (''regNo'', JStr (regNo data)),
           (''passingYear'', JStr (passingYear data)),
           (''password'', JStr (password data)),
           (''currentPosition'', JStr (currentPosition data)),
           (''currentCompany'', JStr (currentCompany data))]"

text \<open>An exception of \<^verbatim>\<open>validateSignupData\<close> is thrown outside the \<^verbatim>\<open>try\<close> and
  leaves the handler.\<close>

definition handleSignup_submit ::
  "(string \<Rightarrow> error + json) \<Rightarrow> page \<Rightarrow> page \<times> request option" where
  "handleSignup_submit parse s =
     (let signupData = readSignupData s
      in case validateSignupData parse s signupData of
           Inl e \<Rightarrow> (s\<lparr>uncaught := uncaught s @ [e]\<rparr>, None)
         | Inr validationResult \<Rightarrow>
             (case validationResult of
                Invalid m \<Rightarrow> (showMessage m ''error'' s, None)
              | Valid \<Rightarrow>
                  (let s1 = showLoadingState SignupForm True s;
                       req = makeApiCall_request ''/api/auth/register'' ''POST''
                               (Some (dataToSend signupData))
                   in (s1\<lparr>requests := requests s1 @ [req]\<rparr>, Some req))))"

text \<open>The \<^verbatim>\<open>catch\<close> block of \<open>handleSignup\<close>.\<close>

definition handleSignup_catch :: "error \<Rightarrow> page \<Rightarrow> page" where
  "handleSignup_catch err s =
     (let s1 = showLoadingState SignupForm False s
      in if includes_str (error_message err) ''fetch'' then
           showMessage connectivityMessage ''error'' s1
         else
           showMessage (orElse (Some (error_message err)) ''Signup failed. Please try again.'')
             ''error'' s1)"

definition handleSignup_settle :: "fetch_result \<Rightarrow> page \<Rightarrow> page" where
  "handleSignup_settle fr s =
     (case makeApiCall_result fr of
        Inl err \<Rightarrow> handleSignup_catch err s
      | Inr response \<Rightarrow>
          (let s1 = showLoadingState SignupForm False s
           in case getProperty response ''success'' of
                Inl e \<Rightarrow> handleSignup_catch e s1
              | Inr succeeded \<Rightarrow>
                  if truthy_value succeeded then
                    setTimeout SwitchToLogin 2000
                      (showMessage ''Account created successfully! You can now sign in.''
                         ''success'' s1)
                  else
                    (case orString (readOwn response ''message'') ''Signup failed'' of
                       Inl e \<Rightarrow> handleSignup_catch e s1
                     | Inr m \<Rightarrow> showMessage m ''error'' s1)))"

definition handleSignup :: "(string \<Rightarrow> error + json) \<Rightarrow> fetch_result \<Rightarrow> page \<Rightarrow> page" where
  "handleSignup parse fr s =
     (case handleSignup_submit parse s of
        (s1, None) \<Rightarrow> s1
      | (s1, Some req) \<Rightarrow> handleSignup_settle fr s1)"

subsection \<open>The specification's wording, for comparison\<close>

text \<open>
  The specification's passing-year rule: the value is numeric, here a plain decimal
  numeral, and lies in the inclusive range from 1970 to 2025.
\<close>

definition isValidPassingYear_spec :: "string \<Rightarrow> bool" where
  "isValidPassingYear_spec y =
     (y \<noteq> [] \<and> list_all isDecimalDigit y
      \<and> 1970 \<le> numeralValue 10 y \<and> numeralValue 10 y \<le> 2025)"

text \<open>
  The specification's composite signup validation: six checks in a fixed order, each
  with its message; the first check that fails decides, and the later ones are not
  consulted. A check passes (\<open>Inr True\<close>), fails (\<open>Inr False\<close>) or throws.
\<close>

definition notCached :: "(string \<Rightarrow> error + json) \<Rightarrow> page \<Rightarrow> string \<Rightarrow> error + bool" where
  "notCached parse s r =
     (case getStoredUsers parse s of
        Inl e \<Rightarrow> Inl e
      | Inr existingUsers \<Rightarrow>
          (case findExistingUser existingUsers r of
             Inl e \<Rightarrow> Inl e
           | Inr found \<Rightarrow> Inr (\<not> (case found of None \<Rightarrow> False | Some u \<Rightarrow> json_truthy u))))"

definition compositeChecks_spec ::
  "(string \<Rightarrow> error + json) \<Rightarrow> page \<Rightarrow> signup_data \<Rightarrow> ((error + bool) \<times> string) list" where
  "compositeChecks_spec parse s data =
     [(Inr (name data \<noteq> [] \<and> fatherName data \<noteq> [] \<and> course data \<noteq> []
            \<and> department data \<noteq> [] \<and> regNo data \<noteq> [] \<and> passingYear data \<noteq> []
            \<and> password data \<noteq> [] \<and> confirmPassword data \<noteq> []),
       ''Please fill in all required fields''),
      (Inr (validateRegistrationNumber (regNo data)), ''Invalid registration number format''),
      (notCached parse s (regNo data), ''Registration number already exists''),
      (Inr (validatePassingYear (passingYear data)), ''Year must be between 1970 and 2025''),
      (Inr (validatePassword (password data)),
       ''Password must be at least 8 characters with letters and numbers''),
      (Inr (password data = confirmPassword data), ''Passwords do not match'')]"

fun firstFailure :: "((error + bool) \<times> string) list \<Rightarrow> error + validation_result" where
  "firstFailure [] = Inr Valid"
| "firstFailure ((c, m) # rest) =
     (case c of
        Inl e \<Rightarrow> Inl e
      | Inr passed \<Rightarrow> if passed then firstFailure rest else Inr (Invalid m))"

subsection \<open>A page and a parser for the examples\<close>

text \<open>A freshly loaded page: the login form is active, every input is empty, no course is
  chosen, nothing is stored and no timer is pending.\<close>

definition examplePage :: page where
  "examplePage =
     \<lparr>loginFormActive = True,
      signupFormActive = False,
      loginFields = \<lparr>el_loginRegNo = [], el_loginPassword = []\<rparr>,
      loginDefaults = \<lparr>el_loginRegNo = [], el_loginPassword = []\<rparr>,
      signupFields = \<lparr>el_name = [], el_fatherName = [], el_course = [], el_department = [],
                      el_regNumber = [], el_signupPassingYear = [], el_signupPassword = [],
                      el_confirmPassword = [], el_currentPosition = Some [],
                      el_currentCompany = Some []\<rparr>,
      signupDefaults = \<lparr>el_name = [], el_fatherName = [], el_course = [], el_department = [],
                      el_regNumber = [], el_signupPassingYear = [], el_signupPassword = [],
                      el_confirmPassword = [], el_currentPosition = Some [],
                      el_currentCompany = Some []\<rparr>,
      departmentDisabled = True,
      departmentOptions = placeholder,
      departmentOpacity = ''1'',
      messageText = [],
      messageClassName = ''message'',
      iconClassName = [],
      messageShown = False,
      loginButton = \<lparr>loading = False, disabled = False, label = ''Sign In''\<rparr>,
      signupButton = \<lparr>loading = False, disabled = False, label = ''Create Account''\<rparr>,
      localStorage = Map.empty,
      timers = [],
      now = 0,
      location_href = ''login.html'',
      requests = [],
      uncaught = []\<rparr>"

text \<open>The signup form filled in by a graduate, with the two passwords as given.\<close>

definition filledSignup :: "string \<Rightarrow> string \<Rightarrow> signup_fields" where
  "filledSignup pw confirm =
     \<lparr>el_name = ''Asha Kumari'', el_fatherName = ''Ram Kumar'', el_course = ''UG'',
      el_department = ''PHYSICS'', el_regNumber = ''AB1234'', el_signupPassingYear = ''2019'',
      el_signupPassword = pw, el_confirmPassword = confirm,
      el_currentPosition = Some [], el_currentCompany = Some []\<rparr>"

text \<open>A stand-in for \<^verbatim>\<open>JSON.parse\<close> in the examples: it reads the text of the empty
  array and of one cached list of users (written without its quotation marks) and rejects
  every other text.\<close>

definition exampleParse :: "string \<Rightarrow> error + json" where
  "exampleParse text =
     (if text = ''[]'' then Inr (JArr [])
      else if text = ''[{regNo:AB1234}]'' then Inr (JArr [JObj [(''regNo'', JStr ''AB1234'')]])
      else Inl (SyntaxError ''Unexpected token in JSON''))"

definition signupPage :: "string \<Rightarrow> string \<Rightarrow> page" where
  "signupPage pw confirm =
     examplePage\<lparr>loginFormActive := False, signupFormActive := True,
                 signupFields := filledSignup pw confirm\<rparr>"

definition loginPage :: page where
  "loginPage = examplePage\<lparr>loginFields := \<lparr>el_loginRegNo = ''AB1234'', el_loginPassword = ''abc12345''\<rparr>\<rparr>"

definition successResponse :: json where
  "successResponse = JObj [(''success'', JBool True), (''token'', JStr ''xyz'')]"

definition cachedPage :: page where
  "cachedPage =
     (signupPage ''abc12345'' ''abc12345'')
       \<lparr>localStorage := (localStorage examplePage)(''users'' \<mapsto> ''[{regNo:AB1234}]'')\<rparr>"

section \<open>Properties\<close>

subsection \<open>What leaves the storage alone\<close>

lemma localStorage_showMessage: "localStorage (showMessage t k s) = localStorage s"
  by (simp add: showMessage_def setTimeout_def)

lemma localStorage_showLoadingState: "localStorage (showLoadingState f b s) = localStorage s"
  by (cases f) (simp_all add: showLoadingState_def setSubmitButton_def)

lemma localStorage_setTimeout: "localStorage (setTimeout a d s) = localStorage s"
  by (simp add: setTimeout_def)

lemma localStorage_switchToLogin: "localStorage (switchToLogin s) = localStorage s"
  by (simp add: switchToLogin_def resetDepartmentOptions_def resetSignupForm_def hideMessage_def)

lemma localStorage_fire: "localStorage (fire a s) = localStorage s"
  by (cases a) (simp_all add: localStorage_switchToLogin hideMessage_def split: sum.splits)

lemma localStorage_fire_all:
  "localStorage (foldl (\<lambda>s' (d, a). fire a s') s l) = localStorage s"
proof (induction l arbitrary: s)
  case Nil
  then show ?case by simp
next
  case (Cons x l)
  obtain d a where x: "x = (d, a)" by (cases x)
  have "localStorage (foldl (\<lambda>s' (d, a). fire a s') (fire a s) l) = localStorage (fire a s)"
    by (rule Cons.IH)
  then show ?case using x by (simp add: localStorage_fire)
qed

lemma localStorage_advance: "localStorage (advance dt s) = localStorage s"
  by (simp add: advance_def Let_def localStorage_fire_all)

lemma localStorage_handleSignup_catch: "localStorage (handleSignup_catch e s) = localStorage s"
  by (simp add: handleSignup_catch_def Let_def localStorage_showMessage
      localStorage_showLoadingState)

lemma localStorage_handleSignup_settle: "localStorage (handleSignup_settle fr s) = localStorage s"
  by (simp add: handleSignup_settle_def Let_def localStorage_handleSignup_catch
      localStorage_showMessage localStorage_showLoadingState localStorage_setTimeout
      split: sum.splits)

lemma localStorage_handleSignup_submit:
  "localStorage (fst (handleSignup_submit parse s)) = localStorage s"
  by (simp add: handleSignup_submit_def Let_def localStorage_showMessage
      localStorage_showLoadingState split: sum.splits validation_result.splits)

lemma localStorage_handleSignup: "localStorage (handleSignup parse fr s) = localStorage s"
proof (cases "handleSignup_submit parse s")
  case (Pair s1 r)
  then have s1: "localStorage s1 = localStorage s"
    using localStorage_handleSignup_submit [of parse s] by simp
  show ?thesis
  proof (cases r)
    case None
    then show ?thesis using Pair s1 by (simp add: handleSignup_def)
  next
    case (Some req)
    then show ?thesis
      using Pair s1 by (simp add: handleSignup_def localStorage_handleSignup_settle)
  qed
qed

subsection \<open>Evaluating the examples\<close>

lemma signupPage_valid:
  "validateSignupData exampleParse (signupPage ''abc12345'' ''abc12345'')
     (readSignupData (signupPage ''abc12345'' ''abc12345'')) = Inr Valid"
  by (simp add: validateSignupData_def readSignupData_def signupPage_def examplePage_def
      filledSignup_def trim_def isWhiteSpace_def validateRegistrationNumber_def
      isAsciiLetter_def isDecimalDigit_def getStoredUsers_def findExistingUser_def
      validatePassingYear_def parseInt_def parseNumeral_def stripSign_def isRadixDigit_def digitValue_def
      numeralValue_def validatePassword_def isLineTerminator_def isPasswordChar_def Let_def)

lemma signupPage_success_message:
  "messageText (handleSignup exampleParse (FetchResponse 201 (Parsed successResponse))
     (signupPage ''abc12345'' ''abc12345''))
   = ''Account created successfully! You can now sign in.''"
  by (simp add: handleSignup_def handleSignup_submit_def signupPage_valid
      handleSignup_settle_def makeApiCall_result_def response_ok_def successResponse_def
      getProperty_def showMessage_def setTimeout_def showLoadingState_def setSubmitButton_def
      submitButton_def Let_def)

subsection \<open>Form switching\<close>

lemma resetOptional_idem: "resetOptional (resetOptional c d) d = resetOptional c d"
  by (cases c) simp_all

text \<open>
  Claim C8. Calling \<open>switchToLogin\<close> twice in a row, from any starting page, leaves the
  page exactly as calling it once does: the active form, the message, the contents of
  the signup form, the department dropdown and everything else coincide.
\<close>

theorem switchToLogin_idempotent: "switchToLogin (switchToLogin s) = switchToLogin s"
  by (simp add: switchToLogin_def resetDepartmentOptions_def resetSignupForm_def
      hideMessage_def resetOptional_idem)

subsection \<open>Signup and the token\<close>

text \<open>
  Claim C9. A signup never writes the token: neither the handler up to its request, nor
  its continuation on any answer of the server (a success response included), nor the
  delayed switch to the login form changes what \<open>gettoken\<close> returns, and so
  \<open>isUserLoggedIn\<close> is unchanged as well.
\<close>

theorem signup_never_stores_token:
  "gettoken (fst (handleSignup_submit parse s)) = gettoken s
   \<and> gettoken (handleSignup_settle fr s) = gettoken s
   \<and> gettoken (advance dt (handleSignup parse fr s)) = gettoken s
   \<and> isUserLoggedIn (advance dt (handleSignup parse fr s)) = isUserLoggedIn s"
  by (simp add: gettoken_def isUserLoggedIn_def localStorage_handleSignup_submit
      localStorage_handleSignup_settle localStorage_advance localStorage_handleSignup)

text \<open>On the example page a signup answered with success, and with a token in the answer,
  shows the account-created message and leaves the storage without a token after the
  switch to the login form.\<close>

theorem signup_never_stores_token_witness:
  "messageText (handleSignup exampleParse (FetchResponse 201 (Parsed successResponse))
     (signupPage ''abc12345'' ''abc12345''))
   = ''Account created successfully! You can now sign in.''
   \<and> gettoken (advance 2000 (handleSignup exampleParse (FetchResponse 201 (Parsed successResponse))
        (signupPage ''abc12345'' ''abc12345''))) = None
   \<and> \<not> isUserLoggedIn (advance 2000 (handleSignup exampleParse
        (FetchResponse 201 (Parsed successResponse)) (signupPage ''abc12345'' ''abc12345'')))"
  using signup_never_stores_token [of exampleParse "signupPage ''abc12345'' ''abc12345''"
      "FetchResponse 201 (Parsed successResponse)" 2000]
  by (simp add: signupPage_success_message)
     (simp add: gettoken_def isUserLoggedIn_def signupPage_def examplePage_def)

subsection \<open>Login and the token\<close>

lemma loginPage_submit:
  "handleLogin_submit loginPage =
     ((showLoadingState LoginForm True loginPage)
        \<lparr>requests := [makeApiCall_request ''/api/auth/login'' ''POST''
            (Some (JObj [(''regNo'', JStr ''AB1234''), (''password'', JStr ''abc12345'')]))]\<rparr>,
      Some (makeApiCall_request ''/api/auth/login'' ''POST''
            (Some (JObj [(''regNo'', JStr ''AB1234''), (''password'', JStr ''abc12345'')]))))"
  by (simp add: handleLogin_submit_def loginPage_def examplePage_def trim_def isWhiteSpace_def
      validateRegistrationNumber_def isAsciiLetter_def isDecimalDigit_def Let_def
      showLoadingState_def setSubmitButton_def submitButton_def)

lemma localStorage_handleLogin_catch: "localStorage (handleLogin_catch e s) = localStorage s"
  by (simp add: handleLogin_catch_def Let_def localStorage_showMessage
      localStorage_showLoadingState)

lemma storeToken_string:
  "readOwn response ''token'' = Some (JStr t) \<Longrightarrow> t \<noteq> [] \<Longrightarrow>
     storeToken response s = Inr (s\<lparr>localStorage := (localStorage s)(''token'' \<mapsto> t)\<rparr>)"
  by (simp add: storeToken_def)

lemma localStorage_handleLogin_success:
  assumes "response_ok status" "truthy_value (readOwn response ''success'')"
    "readOwn response ''token'' = Some (JStr t)" "t \<noteq> []"
  shows "localStorage (handleLogin_settle (FetchResponse status (Parsed response)) s)
           = (localStorage s)(''token'' \<mapsto> t)"
proof -
  have nn: "response \<noteq> JNull" using assms(3) by auto
  have st: "storeToken response (showLoadingState LoginForm False s)
              = Inr ((showLoadingState LoginForm False s)
                  \<lparr>localStorage := (localStorage s)(''token'' \<mapsto> t)\<rparr>)"
    using assms(3,4) by (simp add: storeToken_string localStorage_showLoadingState)
  show ?thesis
    using assms(1,2) nn
    by (simp add: handleLogin_settle_def makeApiCall_result_def getProperty_def Let_def st
        localStorage_handleLogin_catch localStorage_showMessage localStorage_setTimeout
        split: sum.splits)
qed

text \<open>
  Claim C1, as amended. When the login handler receives a successful response that carries
  a non-empty token \<open>t\<close> (for instance \<^verbatim>\<open>xyz\<close>), the token is stored: \<open>gettoken\<close>
  returns \<open>t\<close> afterwards, also after the delayed redirect, and \<open>isUserLoggedIn\<close> is
  true. For every state of the storage, \<open>isUserLoggedIn\<close> holds exactly when the token is
  neither missing nor the empty string.
\<close>

theorem login_stores_token:
  "(response_ok status \<and> truthy_value (readOwn response ''success'')
      \<and> readOwn response ''token'' = Some (JStr t) \<and> t \<noteq> [] \<longrightarrow>
      gettoken (handleLogin_settle (FetchResponse status (Parsed response)) s) = Some t
      \<and> isUserLoggedIn (handleLogin_settle (FetchResponse status (Parsed response)) s)
      \<and> gettoken (advance dt (handleLogin_settle (FetchResponse status (Parsed response)) s))
          = Some t)
   \<and> isUserLoggedIn s = (gettoken s \<noteq> None \<and> gettoken s \<noteq> Some [])"
proof -
  have "isUserLoggedIn s = (gettoken s \<noteq> None \<and> gettoken s \<noteq> Some [])"
    by (cases "gettoken s") (simp_all add: isUserLoggedIn_def)
  then show ?thesis
    by (simp add: gettoken_def isUserLoggedIn_def localStorage_handleLogin_success
        localStorage_advance)
qed

theorem login_stores_token_witness:
  "gettoken (handleLogin (FetchResponse 200 (Parsed successResponse)) loginPage) = Some ''xyz''
   \<and> isUserLoggedIn (handleLogin (FetchResponse 200 (Parsed successResponse)) loginPage)
   \<and> gettoken (advance 1500 (handleLogin (FetchResponse 200 (Parsed successResponse)) loginPage))
       = Some ''xyz''
   \<and> \<not> isUserLoggedIn loginPage"
  using login_stores_token [of 200 successResponse "''xyz''" "fst (handleLogin_submit loginPage)" 1500]
  by (simp add: handleLogin_def loginPage_submit response_ok_def successResponse_def)
     (simp add: isUserLoggedIn_def gettoken_def loginPage_def examplePage_def)

text \<open>With the empty string stored as the token, \<open>gettoken\<close> is not \<^verbatim>\<open>null\<close>, yet
  \<open>isUserLoggedIn\<close> is false: the claim's equation fails there.\<close>

theorem isUserLoggedIn_counterexample:
  "isUserLoggedIn (examplePage\<lparr>localStorage := (localStorage examplePage)(''token'' \<mapsto> [])\<rparr>)
   \<noteq> (gettoken (examplePage\<lparr>localStorage := (localStorage examplePage)(''token'' \<mapsto> [])\<rparr>) \<noteq> None)"
  by (simp add: isUserLoggedIn_def gettoken_def)

subsection \<open>The API client\<close>








subsection \<open>The message area and its timers\<close>

lemma timers_showMessage: "timers (showMessage t k s) = timers s @ [(now s + 5000, HideMessage)]"
  by (simp add: showMessage_def setTimeout_def)

lemma now_showMessage: "now (showMessage t k s) = now s"
  by (simp add: showMessage_def setTimeout_def)

lemma messageShown_fire: "\<not> messageShown s \<Longrightarrow> \<not> messageShown (fire a s)"
  by (cases a) (simp_all add: hideMessage_def switchToLogin_def resetDepartmentOptions_def
      resetSignupForm_def split: sum.splits)

lemma messageShown_fire_all:
  "\<not> messageShown s \<Longrightarrow> \<not> messageShown (foldl (\<lambda>s' (d, a). fire a s') s l)"
proof (induction l arbitrary: s)
  case Nil
  then show ?case by simp
next
  case (Cons x l)
  obtain d a where x: "x = (d, a)" by (cases x)
  have "\<not> messageShown (fire a s)" using Cons.prems by (rule messageShown_fire)
  then have "\<not> messageShown (foldl (\<lambda>s' (d, a). fire a s') (fire a s) l)" by (rule Cons.IH)
  then show ?case using x by simp
qed

lemma HideMessage_fire_all:
  "HideMessage \<in> snd ` set l \<Longrightarrow> \<not> messageShown (foldl (\<lambda>s' (d, a). fire a s') s l)"
proof (induction l arbitrary: s)
  case Nil
  then show ?case by simp
next
  case (Cons x l)
  obtain d a where x: "x = (d, a)" by (cases x)
  show ?case
  proof (cases "a = HideMessage")
    case True
    have "\<not> messageShown (hideMessage s)" by (simp add: hideMessage_def)
    then have "\<not> messageShown (foldl (\<lambda>s' (d, a). fire a s') (hideMessage s) l)"
      by (rule messageShown_fire_all)
    then show ?thesis using x True by simp
  next
    case False
    then have "HideMessage \<in> snd ` set l" using Cons.prems x by auto
    then have "\<not> messageShown (foldl (\<lambda>s' (d, a). fire a s') (fire a s) l)" by (rule Cons.IH)
    then show ?thesis using x by simp
  qed
qed

lemma HideMessage_advance:
  assumes "(d, HideMessage) \<in> set (timers s)" and "d \<le> now s + dt"
  shows "\<not> messageShown (advance dt s)"
proof -
  have "(d, HideMessage) \<in> set (sort_key fst (filter (\<lambda>(d, a). d \<le> now s + dt) (timers s)))"
    using assms by simp
  then have "HideMessage \<in> snd ` set (sort_key fst (filter (\<lambda>(d, a). d \<le> now s + dt) (timers s)))"
    by force
  then show ?thesis
    unfolding advance_def Let_def by (rule HideMessage_fire_all)
qed

lemma nothing_due_advance:
  assumes "list_all (\<lambda>(d, a). now s + dt < d) (timers s)"
  shows "advance dt s = s\<lparr>now := now s + dt\<rparr>"
proof -
  have "filter (\<lambda>(d, a). d \<le> now s + dt) (timers s) = []"
    using assms by (auto simp: list_all_iff filter_empty_conv)
  moreover have "filter (\<lambda>(d, a). \<not> d \<le> now s + dt) (timers s) = timers s"
    using assms by (auto simp: list_all_iff filter_id_conv)
  ultimately show ?thesis by (simp add: advance_def Let_def)
qed

text \<open>
  Claim C2, as amended. There is one message area, and \<open>showMessage\<close> puts the new text
  into it and makes it visible. Every call schedules its own auto-hide five seconds later
  and leaves the timers already pending in place: timers stack, none is replaced. The
  area is hidden as soon as any pending auto-hide falls due, so a message shown while an
  earlier auto-hide is pending is hidden when that earlier timer fires; it stays visible
  up to its own five seconds only when no earlier timer falls due in between, and it is
  hidden once its five seconds have passed.
\<close>

theorem showMessage_timers_stack:
  "messageShown (showMessage t k s) \<and> messageText (showMessage t k s) = t
   \<and> timers (showMessage t k s) = timers s @ [(now s + 5000, HideMessage)]
   \<and> ((d, HideMessage) \<in> set (timers s) \<and> d \<le> now s + dt \<longrightarrow>
        \<not> messageShown (advance dt (showMessage t k s)))
   \<and> (list_all (\<lambda>(d, a). now s + dt < d) (timers s) \<and> dt < 5000 \<longrightarrow>
        messageShown (advance dt (showMessage t k s)))
   \<and> \<not> messageShown (advance 5000 (showMessage t k s))"
proof -
  have shown: "messageShown (showMessage t k s) \<and> messageText (showMessage t k s) = t"
    by (simp add: showMessage_def setTimeout_def)
  have early: "\<not> messageShown (advance dt (showMessage t k s))"
    if "(d, HideMessage) \<in> set (timers s)" and "d \<le> now s + dt"
    using that by (intro HideMessage_advance [of d]) (simp_all add: timers_showMessage now_showMessage)
  have full: "messageShown (advance dt (showMessage t k s))"
    if "list_all (\<lambda>(d, a). now s + dt < d) (timers s)" and "dt < 5000"
  proof -
    have "list_all (\<lambda>(d, a). now (showMessage t k s) + dt < d) (timers (showMessage t k s))"
      using that by (simp add: timers_showMessage now_showMessage)
    then have "advance dt (showMessage t k s) = (showMessage t k s)\<lparr>now := now (showMessage t k s) + dt\<rparr>"
      by (rule nothing_due_advance)
    then show ?thesis using shown by simp
  qed
  have own: "\<not> messageShown (advance 5000 (showMessage t k s))"
    by (rule HideMessage_advance [of "now s + 5000"]) (simp_all add: timers_showMessage now_showMessage)
  show ?thesis using shown early full own timers_showMessage by blast
qed

theorem showMessage_timers_stack_witness:
  "\<not> messageShown (advance 1000 (showMessage ''Second'' ''error''
       (advance 4000 (showMessage ''First'' ''success'' examplePage))))
   \<and> messageShown (advance 4999 (showMessage ''First'' ''success'' examplePage))
   \<and> \<not> messageShown (advance 5000 (showMessage ''First'' ''success'' examplePage))"
  using showMessage_timers_stack [of "''Second''" "''error''"
      "advance 4000 (showMessage ''First'' ''success'' examplePage)" 5000 1000]
    showMessage_timers_stack [of "''First''" "''success''" examplePage 0 4999]
  by (simp add: examplePage_def showMessage_def setTimeout_def advance_def)

text \<open>A first message at time 0 and a second one at 3000: two timers are then pending,
  and at 5000 the timer of the first call hides the second message, two seconds after it
  was shown.\<close>

theorem showMessage_replaces_timer_counterexample:
  "\<not> messageShown (advance 2000 (showMessage ''B'' ''error''
       (advance 3000 (showMessage ''A'' ''success'' examplePage))))
   \<and> timers (showMessage ''B'' ''error'' (advance 3000 (showMessage ''A'' ''success'' examplePage)))
       = [(5000, HideMessage), (8000, HideMessage)]"
  by (simp add: examplePage_def showMessage_def setTimeout_def advance_def hideMessage_def)

subsection \<open>The submit control and failures of the transport\<close>

lemma loginButton_showMessage: "loginButton (showMessage t k s) = loginButton s"
  by (simp add: showMessage_def setTimeout_def)

lemma signupButton_showMessage: "signupButton (showMessage t k s) = signupButton s"
  by (simp add: showMessage_def setTimeout_def)

lemma loginButton_handleLogin_catch:
  "loginButton (handleLogin_catch e s)
     = (loginButton s)\<lparr>loading := False, disabled := False, label := ''Sign In''\<rparr>"
  by (simp add: handleLogin_catch_def Let_def loginButton_showMessage showLoadingState_def
      setSubmitButton_def submitButton_def)

lemma signupButton_handleSignup_catch:
  "signupButton (handleSignup_catch e s)
     = (signupButton s)\<lparr>loading := False, disabled := False, label := ''Create Account''\<rparr>"
  by (simp add: handleSignup_catch_def Let_def signupButton_showMessage showLoadingState_def
      setSubmitButton_def submitButton_def)

lemma loginButton_storeToken:
  "storeToken response s = Inr s2 \<Longrightarrow> loginButton s2 = loginButton s"
  by (auto simp add: storeToken_def split: option.splits if_splits sum.splits)

lemma loginButton_handleLogin_settle:
  "loginButton (handleLogin_settle fr s)
     = (loginButton s)\<lparr>loading := False, disabled := False, label := ''Sign In''\<rparr>"
proof -
  let ?s1 = "showLoadingState LoginForm False s"
  have s1: "loginButton ?s1
      = (loginButton s)\<lparr>loading := False, disabled := False, label := ''Sign In''\<rparr>"
    by (simp add: showLoadingState_def setSubmitButton_def submitButton_def)
  have token: "loginButton s2 = loginButton ?s1" if "storeToken response ?s1 = Inr s2"
    for response s2
    using that by (rule loginButton_storeToken)
  show ?thesis
    by (simp add: handleLogin_settle_def Let_def loginButton_handleLogin_catch
        loginButton_showMessage setTimeout_def s1 token split: sum.splits)
qed

lemma signupButton_handleSignup_settle:
  "signupButton (handleSignup_settle fr s)
     = (signupButton s)\<lparr>loading := False, disabled := False, label := ''Create Account''\<rparr>"
proof -
  have s1: "signupButton (showLoadingState SignupForm False s)
      = (signupButton s)\<lparr>loading := False, disabled := False, label := ''Create Account''\<rparr>"
    by (simp add: showLoadingState_def setSubmitButton_def submitButton_def)
  show ?thesis
    by (simp add: handleSignup_settle_def Let_def signupButton_handleSignup_catch
        signupButton_showMessage setTimeout_def s1 split: sum.splits)
qed

lemma loginButton_handleLogin_submit:
  "snd (handleLogin_submit s) = None \<Longrightarrow> loginButton (fst (handleLogin_submit s)) = loginButton s"
  by (auto simp add: handleLogin_submit_def Let_def loginButton_showMessage split: if_splits)

lemma signupButton_handleSignup_submit:
  "snd (handleSignup_submit parse s) = None \<Longrightarrow>
     signupButton (fst (handleSignup_submit parse s)) = signupButton s"
  by (simp add: handleSignup_submit_def Let_def signupButton_showMessage
      split: sum.splits validation_result.splits)

text \<open>
  Whatever \<^verbatim>\<open>fetch\<close> answers, failure or not, the continuation of each handler leaves
  its submit button enabled, not loading and with its original label; and a submission
  that is rejected before any request leaves the button as it was.
\<close>

lemma submit_control_restored:
  "\<not> disabled (loginButton (handleLogin_settle fr s))
   \<and> \<not> loading (loginButton (handleLogin_settle fr s))
   \<and> label (loginButton (handleLogin_settle fr s)) = ''Sign In''
   \<and> \<not> disabled (signupButton (handleSignup_settle fr s))
   \<and> \<not> loading (signupButton (handleSignup_settle fr s))
   \<and> label (signupButton (handleSignup_settle fr s)) = ''Create Account''
   \<and> (snd (handleLogin_submit s) = None \<longrightarrow>
        loginButton (fst (handleLogin_submit s)) = loginButton s)
   \<and> (snd (handleSignup_submit parse s) = None \<longrightarrow>
        signupButton (fst (handleSignup_submit parse s)) = signupButton s)"
  by (simp add: loginButton_handleLogin_settle signupButton_handleSignup_settle
      loginButton_handleLogin_submit signupButton_handleSignup_submit)

text \<open>
  Claim C6 says that every transport-level failure surfaces the connectivity message,
  distinct from the messages of application errors. The handlers take a failure for a
  transport failure when the message of the error contains \<^verbatim>\<open>fetch\<close>. A \<^verbatim>\<open>fetch\<close>
  rejected with the message \<^verbatim>\<open>Load failed\<close>, as one browser words it, is shown with that
  message and not with the connectivity message, for login and for signup; and an
  application error, a status 500 whose backend message is
  \<^verbatim>\<open>Could not fetch user\<close>, is shown with the connectivity message.
\<close>

theorem transport_failure_not_recognised:
  "messageText (handleLogin (FetchFailed ''Load failed'') loginPage) = ''Load failed''
   \<and> messageText (handleLogin (FetchFailed ''Load failed'') loginPage) \<noteq> connectivityMessage
   \<and> messageText (handleSignup exampleParse (FetchFailed ''Load failed'')
        (signupPage ''abc12345'' ''abc12345'')) = ''Load failed''
   \<and> messageText (handleLogin
        (FetchResponse 500 (Parsed (JObj [(''message'', JStr ''Could not fetch user'')])))
        loginPage) = connectivityMessage"
  by (simp add: handleLogin_def loginPage_submit handleLogin_settle_def handleLogin_catch_def
      handleSignup_def handleSignup_submit_def signupPage_valid handleSignup_settle_def
      handleSignup_catch_def makeApiCall_result_def getProperty_def orString_def
      response_ok_def showMessage_def setTimeout_def connectivityMessage_def Let_def)

subsection \<open>The department dropdown\<close>

text \<open>
  After a course-change event the dropdown is a function of the chosen course alone: for
  the empty course, and for a course that names no property of \<open>departmentData\<close>, it is
  disabled and holds the placeholder only; for a course of the catalogue it is enabled and
  holds the placeholder followed by the departments of that course; its value is empty.
\<close>

lemma courseChange_dropdown:
  "((c = [] \<or> (departmentData c = None \<and> c \<notin> set Object_prototype_names)) \<longrightarrow>
      departmentDisabled (courseChange c s) \<and> departmentOptions (courseChange c s) = placeholder)
   \<and> (departmentData c = Some ds \<longrightarrow>
      \<not> departmentDisabled (courseChange c s)
      \<and> departmentOptions (courseChange c s) = placeholder @ map (\<lambda>dept. (dept, dept)) ds)
   \<and> el_department (signupFields (courseChange c s)) = []"
proof -
  have "c \<noteq> []" if "departmentData c = Some ds"
    using that by (auto simp: departmentData_def)
  then show ?thesis
    by (auto simp add: courseChange_def handleCourseChange_def departmentData_get_def Let_def
        resetDepartmentOptions_def setTimeout_def split: option.splits property.splits)
qed

text \<open>
  Claim C7 says that an unknown course leaves the dropdown disabled. The course value
  \<^verbatim>\<open>constructor\<close> is no key of the catalogue, but \<^verbatim>\<open>departmentData[selectedCourse]\<close>
  finds the inherited property and is truthy: the listener enables the dropdown, which
  holds the placeholder only, and then fails on \<^verbatim>\<open>forEach\<close>.
\<close>

theorem courseChange_inherited_name:
  "departmentData ''constructor'' = None
   \<and> \<not> departmentDisabled (courseChange ''constructor'' examplePage)
   \<and> departmentOptions (courseChange ''constructor'' examplePage) = placeholder
   \<and> uncaught (courseChange ''constructor'' examplePage)
       = [TypeError ''departmentData[selectedCourse].forEach is not a function'']"
  by (simp add: courseChange_def handleCourseChange_def departmentData_get_def departmentData_def
      Object_prototype_names_def Let_def resetDepartmentOptions_def examplePage_def)

subsection \<open>The duplicate check against the local cache\<close>

lemma array_find_Some:
  "array_find p us = Inr (Some u) \<Longrightarrow> u \<in> set us \<and> p u = Inr True"
  by (induction us) (auto split: sum.splits if_splits)

lemma regNoEquals_True:
  "regNoEquals r u = Inr True \<Longrightarrow> \<exists>kvs. u = JObj kvs \<and> map_of kvs ''regNo'' = Some (JStr r)"
  by (cases u) auto

lemma findExistingUser_Some:
  assumes "findExistingUser existingUsers r = Inr (Some u)"
  shows "\<exists>us kvs. existingUsers = JArr us \<and> JObj kvs \<in> set us
           \<and> map_of kvs ''regNo'' = Some (JStr r)"
proof -
  from assms obtain us where us: "existingUsers = JArr us" and f: "array_find (regNoEquals r) us = Inr (Some u)"
    by (cases existingUsers) (auto simp: findExistingUser_def)
  from f have "u \<in> set us" and "regNoEquals r u = Inr True"
    using array_find_Some by blast+
  then show ?thesis using us regNoEquals_True by blast
qed

lemma getStoredUsers_absent: "localStorage s ''users'' = None \<Longrightarrow> getStoredUsers parse s = Inr (JArr [])"
  by (simp add: getStoredUsers_def)

lemma validateSignupData_duplicate:
  assumes "validateSignupData parse s data = Inr (Invalid ''Registration number already exists'')"
  shows "\<exists>existingUsers u. getStoredUsers parse s = Inr existingUsers
           \<and> findExistingUser existingUsers (regNo data) = Inr (Some u)"
  using assms
  by (auto simp add: validateSignupData_def split: if_splits sum.splits option.splits)

text \<open>
  Claim C10. When the key \<^verbatim>\<open>users\<close> is absent from the storage, \<open>getStoredUsers\<close>
  returns the empty list and the validation never answers
  \<^verbatim>\<open>Registration number already exists\<close>. Whenever the validation gives that answer, the
  storage holds a text under \<^verbatim>\<open>users\<close> that parses to an array with an entry whose
  \<^verbatim>\<open>regNo\<close> is the submitted registration number.
\<close>

theorem duplicate_check_local_cache:
  "(localStorage s ''users'' = None \<longrightarrow>
      getStoredUsers parse s = Inr (JArr [])
      \<and> validateSignupData parse s data \<noteq> Inr (Invalid ''Registration number already exists''))
   \<and> (validateSignupData parse s data = Inr (Invalid ''Registration number already exists'') \<longrightarrow>
      (\<exists>stored us kvs. localStorage s ''users'' = Some stored \<and> parse stored = Inr (JArr us)
         \<and> JObj kvs \<in> set us \<and> map_of kvs ''regNo'' = Some (JStr (regNo data))))"
proof -
  have dup: "\<exists>stored us kvs. localStorage s ''users'' = Some stored \<and> parse stored = Inr (JArr us)
         \<and> JObj kvs \<in> set us \<and> map_of kvs ''regNo'' = Some (JStr (regNo data))"
    if v: "validateSignupData parse s data = Inr (Invalid ''Registration number already exists'')"
  proof -
    from v obtain existingUsers u where g: "getStoredUsers parse s = Inr existingUsers"
      and f: "findExistingUser existingUsers (regNo data) = Inr (Some u)"
      using validateSignupData_duplicate by blast
    from f obtain us kvs where us: "existingUsers = JArr us" and in_us: "JObj kvs \<in> set us"
      and r: "map_of kvs ''regNo'' = Some (JStr (regNo data))"
      using findExistingUser_Some by blast
    from in_us have "us \<noteq> []" by auto
    with g us obtain stored where "localStorage s ''users'' = Some stored" and "parse stored = Inr (JArr us)"
      by (auto simp: getStoredUsers_def split: option.splits if_splits)
    then show ?thesis using in_us r by blast
  qed
  then have "validateSignupData parse s data \<noteq> Inr (Invalid ''Registration number already exists'')"
    if "localStorage s ''users'' = None"
    using that by auto
  then show ?thesis using dup getStoredUsers_absent by blast
qed

lemma cachedPage_duplicate:
  "validateSignupData exampleParse cachedPage (readSignupData cachedPage)
     = Inr (Invalid ''Registration number already exists'')"
  by (simp add: validateSignupData_def readSignupData_def cachedPage_def signupPage_def examplePage_def
      filledSignup_def trim_def isWhiteSpace_def validateRegistrationNumber_def
      isAsciiLetter_def isDecimalDigit_def getStoredUsers_def findExistingUser_def exampleParse_def Let_def)

theorem duplicate_check_local_cache_witness:
  "getStoredUsers exampleParse (signupPage ''abc12345'' ''abc12345'') = Inr (JArr [])
   \<and> validateSignupData exampleParse (signupPage ''abc12345'' ''abc12345'')
        (readSignupData (signupPage ''abc12345'' ''abc12345'')) = Inr Valid
   \<and> validateSignupData exampleParse cachedPage (readSignupData cachedPage)
        = Inr (Invalid ''Registration number already exists'')
   \<and> (\<exists>stored us kvs. localStorage cachedPage ''users'' = Some stored
         \<and> exampleParse stored = Inr (JArr us) \<and> JObj kvs \<in> set us
         \<and> map_of kvs ''regNo'' = Some (JStr (regNo (readSignupData cachedPage))))"
  using duplicate_check_local_cache [of "signupPage ''abc12345'' ''abc12345''" exampleParse
      "readSignupData (signupPage ''abc12345'' ''abc12345'')"]
    duplicate_check_local_cache [of cachedPage exampleParse "readSignupData cachedPage"]
  by (simp add: signupPage_valid cachedPage_duplicate)
     (simp add: signupPage_def examplePage_def)

subsection \<open>Composite signup validation\<close>

lemma validateSignupData_firstFailure:
  "validateSignupData parse s data = firstFailure (compositeChecks_spec parse s data)"
  by (simp add: validateSignupData_def compositeChecks_spec_def notCached_def
      split: sum.splits)

lemma requests_showMessage: "requests (showMessage t k s) = requests s"
  by (simp add: showMessage_def setTimeout_def)

lemma messageText_showMessage: "messageText (showMessage t k s) = t \<and> messageShown (showMessage t k s)"
  by (simp add: showMessage_def setTimeout_def)

lemma mismatch_not_Valid:
  "password data \<noteq> confirmPassword data \<Longrightarrow> validateSignupData parse s data \<noteq> Inr Valid"
  by (simp add: validateSignupData_def split: sum.splits)

lemma mismatch_last:
  assumes "password data \<noteq> confirmPassword data"
    and "firstFailure (take 5 (compositeChecks_spec parse s data)) = Inr Valid"
  shows "validateSignupData parse s data = Inr (Invalid ''Passwords do not match'')"
  using assms
  by (auto simp add: validateSignupData_def compositeChecks_spec_def notCached_def
      split: sum.splits if_splits)

lemma handleSignup_submit_cases:
  "handleSignup_submit parse s =
     (case validateSignupData parse s (readSignupData s) of
        Inl e \<Rightarrow> (s\<lparr>uncaught := uncaught s @ [e]\<rparr>, None)
      | Inr Valid \<Rightarrow>
          ((showLoadingState SignupForm True s)
             \<lparr>requests := requests s @ [makeApiCall_request ''/api/auth/register'' ''POST''
                 (Some (dataToSend (readSignupData s)))]\<rparr>,
           Some (makeApiCall_request ''/api/auth/register'' ''POST''
                 (Some (dataToSend (readSignupData s)))))
      | Inr (Invalid m) \<Rightarrow> (showMessage m ''error'' s, None))"
  by (simp add: handleSignup_submit_def Let_def showLoadingState_def setSubmitButton_def
      submitButton_def split: sum.splits validation_result.splits)

text \<open>
  Claim C4, as amended. \<open>validateSignupData\<close> runs the six checks in the order of the
  specification and answers with the first one that fails, reporting that check's message
  only. For every signup submission in which the password differs from its confirmation no
  request is made, and what is shown is the message of the first failing check: it is
  \<^verbatim>\<open>Passwords do not match\<close> when the five earlier checks pass, and the message of
  the earlier check otherwise; when reading the cached users throws, the exception leaves
  the handler and nothing is shown.
\<close>

theorem signup_validation_first_failure:
  "validateSignupData parse s data = firstFailure (compositeChecks_spec parse s data)
   \<and> (el_signupPassword (signupFields s) \<noteq> el_confirmPassword (signupFields s) \<longrightarrow>
        snd (handleSignup_submit parse s) = None
        \<and> requests (fst (handleSignup_submit parse s)) = requests s
        \<and> (case firstFailure (compositeChecks_spec parse s (readSignupData s)) of
              Inr (Invalid m) \<Rightarrow>
                messageText (fst (handleSignup_submit parse s)) = m
                \<and> messageShown (fst (handleSignup_submit parse s))
            | Inr Valid \<Rightarrow> False
            | Inl e \<Rightarrow> fst (handleSignup_submit parse s) = s\<lparr>uncaught := uncaught s @ [e]\<rparr>)
        \<and> (firstFailure (take 5 (compositeChecks_spec parse s (readSignupData s))) = Inr Valid \<longrightarrow>
              messageText (fst (handleSignup_submit parse s)) = ''Passwords do not match''))"
proof -
  have ff: "validateSignupData parse s data = firstFailure (compositeChecks_spec parse s data)" for data
    by (rule validateSignupData_firstFailure)
  have rest: "snd (handleSignup_submit parse s) = None
        \<and> requests (fst (handleSignup_submit parse s)) = requests s
        \<and> (case firstFailure (compositeChecks_spec parse s (readSignupData s)) of
              Inr (Invalid m) \<Rightarrow>
                messageText (fst (handleSignup_submit parse s)) = m
                \<and> messageShown (fst (handleSignup_submit parse s))
            | Inr Valid \<Rightarrow> False
            | Inl e \<Rightarrow> fst (handleSignup_submit parse s) = s\<lparr>uncaught := uncaught s @ [e]\<rparr>)
        \<and> (firstFailure (take 5 (compositeChecks_spec parse s (readSignupData s))) = Inr Valid \<longrightarrow>
              messageText (fst (handleSignup_submit parse s)) = ''Passwords do not match'')"
    if neq: "el_signupPassword (signupFields s) \<noteq> el_confirmPassword (signupFields s)"
  proof -
    let ?d = "readSignupData s"
    have pw: "password ?d \<noteq> confirmPassword ?d"
      using neq by (simp add: readSignupData_def)
    have nv: "validateSignupData parse s ?d \<noteq> Inr Valid"
      using pw by (rule mismatch_not_Valid)
    have last: "validateSignupData parse s ?d = Inr (Invalid ''Passwords do not match'')"
      if "firstFailure (take 5 (compositeChecks_spec parse s ?d)) = Inr Valid"
      using pw that by (rule mismatch_last)
    show ?thesis
    proof (cases "validateSignupData parse s ?d")
      case (Inl e)
      then have "firstFailure (take 5 (compositeChecks_spec parse s ?d)) \<noteq> Inr Valid"
        using last by auto
      then show ?thesis using Inl ff [of ?d]
        by (simp add: handleSignup_submit_cases)
    next
      case (Inr v)
      show ?thesis
      proof (cases v)
        case Valid
        then show ?thesis using Inr nv by simp
      next
        case (Invalid m)
        then show ?thesis using Inr last ff [of ?d]
          by (auto simp add: handleSignup_submit_cases requests_showMessage messageText_showMessage)
      qed
    qed
  qed
  show ?thesis using ff rest by blast
qed

theorem signup_validation_first_failure_witness:
  "messageText (fst (handleSignup_submit exampleParse (signupPage ''abc12345'' ''abc12346'')))
     = ''Passwords do not match''
   \<and> snd (handleSignup_submit exampleParse (signupPage ''abc12345'' ''abc12346'')) = None
   \<and> requests (fst (handleSignup_submit exampleParse (signupPage ''abc12345'' ''abc12346''))) = []"
  using signup_validation_first_failure [of exampleParse "signupPage ''abc12345'' ''abc12346''"
      "readSignupData (signupPage ''abc12345'' ''abc12346'')"]
  by (simp add: compositeChecks_spec_def notCached_def readSignupData_def signupPage_def examplePage_def
      filledSignup_def trim_def isWhiteSpace_def validateRegistrationNumber_def
      isAsciiLetter_def isDecimalDigit_def getStoredUsers_def findExistingUser_def
      validatePassingYear_def parseInt_def parseNumeral_def stripSign_def isRadixDigit_def digitValue_def
      numeralValue_def validatePassword_def isLineTerminator_def isPasswordChar_def Let_def)

text \<open>A signup whose passwords differ and whose passing year is 1800: the message is that
  of the year check, not \<^verbatim>\<open>Passwords do not match\<close>.\<close>

theorem mismatch_message_counterexample:
  "el_signupPassword (signupFields (examplePage\<lparr>signupFields :=
       (filledSignup ''abc12345'' ''abc12346'')\<lparr>el_signupPassingYear := ''1800''\<rparr>\<rparr>))
     \<noteq> el_confirmPassword (signupFields (examplePage\<lparr>signupFields :=
       (filledSignup ''abc12345'' ''abc12346'')\<lparr>el_signupPassingYear := ''1800''\<rparr>\<rparr>))
   \<and> messageText (fst (handleSignup_submit exampleParse (examplePage\<lparr>signupFields :=
       (filledSignup ''abc12345'' ''abc12346'')\<lparr>el_signupPassingYear := ''1800''\<rparr>\<rparr>)))
     = ''Year must be between 1970 and 2025''"
  by (simp add: handleSignup_submit_def validateSignupData_def readSignupData_def examplePage_def
      filledSignup_def trim_def isWhiteSpace_def validateRegistrationNumber_def
      isAsciiLetter_def isDecimalDigit_def getStoredUsers_def findExistingUser_def
      validatePassingYear_def parseInt_def parseNumeral_def stripSign_def isRadixDigit_def digitValue_def
      numeralValue_def showMessage_def setTimeout_def Let_def)

subsection \<open>The passing year\<close>

lemma isRadixDigit_10: "isRadixDigit 10 c = isDecimalDigit c"
  by (auto simp add: isRadixDigit_def digitValue_def isDecimalDigit_def Let_def)

lemma digit_not_space: "isDecimalDigit c \<Longrightarrow> \<not> isWhiteSpace c"
  by (auto simp add: isDecimalDigit_def isWhiteSpace_def)

lemma digit_not_sign: "isDecimalDigit c \<Longrightarrow> c \<noteq> CHR ''+'' \<and> c \<noteq> CHR ''-'' \<and> c \<noteq> CHR ''x'' \<and> c \<noteq> CHR ''X''"
  by (auto simp add: isDecimalDigit_def)

lemma sign_not_space: "\<not> isWhiteSpace CHR ''+'' \<and> \<not> isWhiteSpace CHR ''-''"
  by (simp add: isWhiteSpace_def)

lemma dropWhile_spaces:
  "list_all isWhiteSpace ws \<Longrightarrow> \<not> isWhiteSpace c \<Longrightarrow> dropWhile isWhiteSpace (ws @ c # cs) = c # cs"
  by (induction ws) simp_all

lemma takeWhile_stop: "rest = [] \<or> \<not> P (hd rest) \<Longrightarrow> takeWhile P rest = []"
  by (cases rest) auto

lemma takeWhile_digits:
  "list_all isDecimalDigit ds \<Longrightarrow> rest = [] \<or> \<not> isDecimalDigit (hd rest) \<Longrightarrow>
     takeWhile isDecimalDigit (ds @ rest) = ds"
  by (induction ds) (simp_all add: takeWhile_stop)

lemma not_hex_prefix:
  assumes "ds \<noteq> []" "list_all isDecimalDigit ds"
    "rest = [] \<or> (hd rest \<noteq> CHR ''x'' \<and> hd rest \<noteq> CHR ''X'')"
  shows "(take 2 (ds @ rest) = ''0x'' \<or> take 2 (ds @ rest) = ''0X'') = False"
proof (cases ds)
  case Nil
  then show ?thesis using assms by simp
next
  case (Cons d ds')
  show ?thesis
  proof (cases ds')
    case Nil
    then show ?thesis using Cons assms(3) by (cases rest) auto
  next
    case (Cons d' ds'')
    then have "isDecimalDigit d'" using assms(2) \<open>ds = d # ds'\<close> by simp
    then show ?thesis using Cons \<open>ds = d # ds'\<close> digit_not_sign [of d'] by auto
  qed
qed

lemma parseNumeral_digits:
  assumes "ds \<noteq> []" "list_all isDecimalDigit ds"
    "rest = [] \<or> (\<not> isDecimalDigit (hd rest) \<and> hd rest \<noteq> CHR ''x'' \<and> hd rest \<noteq> CHR ''X'')"
  shows "parseNumeral (ds @ rest) = Some (numeralValue 10 ds)"
proof -
  have nh: "(take 2 (ds @ rest) = ''0x'' \<or> take 2 (ds @ rest) = ''0X'') = False"
    using assms by (intro not_hex_prefix) auto
  have "takeWhile isDecimalDigit (ds @ rest) = ds"
    using assms by (intro takeWhile_digits) auto
  then have tw: "takeWhile (isRadixDigit 10) (ds @ rest) = ds"
    by (simp add: isRadixDigit_10 [abs_def])
  have "parseNumeral (ds @ rest) = (if ds = [] then None else Some (numeralValue 10 ds))"
    unfolding parseNumeral_def Let_def by (simp only: nh if_False tw)
  then show ?thesis using assms(1) by simp
qed

lemma parseNumeral_no_digit:
  assumes "S1 = [] \<or> \<not> isDecimalDigit (hd S1)"
  shows "parseNumeral S1 = None"
proof (cases S1)
  case Nil
  then show ?thesis by (simp add: parseNumeral_def Let_def)
next
  case (Cons c cs)
  then have c: "\<not> isDecimalDigit c" using assms by simp
  then have "c \<noteq> CHR ''0''" by (auto simp: isDecimalDigit_def)
  then have nh: "(take 2 (c # cs) = ''0x'' \<or> take 2 (c # cs) = ''0X'') = False" by auto
  have tw: "takeWhile (isRadixDigit 10) (c # cs) = []"
    using c by (simp add: isRadixDigit_10)
  have "parseNumeral (c # cs) = None"
    unfolding parseNumeral_def Let_def by (simp only: nh if_False tw if_True simp_thms)
  then show ?thesis using Cons by simp
qed

lemma parseInt_numeral:
  assumes "list_all isWhiteSpace ws" "sg = [] \<or> sg = ''+''" "ds \<noteq> []" "list_all isDecimalDigit ds"
    "rest = [] \<or> (\<not> isDecimalDigit (hd rest) \<and> hd rest \<noteq> CHR ''x'' \<and> hd rest \<noteq> CHR ''X'')"
  shows "parseInt (ws @ sg @ ds @ rest) = Some (int (numeralValue 10 ds))"
proof -
  obtain d ds' where ds: "ds = d # ds'" using assms(3) by (cases ds) auto
  then have d: "isDecimalDigit d" using assms(4) by simp
  have S: "dropWhile isWhiteSpace (ws @ sg @ ds @ rest) = sg @ ds @ rest"
    using assms(1,2) ds d digit_not_space [of d] sign_not_space
    by (auto simp add: dropWhile_spaces)
  have S1: "stripSign (sg @ ds @ rest) = ds @ rest"
    using assms(2) ds digit_not_sign [OF d] by (auto simp add: stripSign_def)
  have nominus: "(sg @ ds @ rest \<noteq> [] \<and> hd (sg @ ds @ rest) = CHR ''-'') = False"
    using assms(2) ds digit_not_sign [OF d] by auto
  have num: "parseNumeral (ds @ rest) = Some (numeralValue 10 ds)"
    using assms(3,4,5) by (rule parseNumeral_digits)
  show ?thesis
    unfolding parseInt_def Let_def S S1 num nominus by simp
qed

lemma parseInt_no_digit:
  assumes "stripSign (dropWhile isWhiteSpace y) = []
           \<or> \<not> isDecimalDigit (hd (stripSign (dropWhile isWhiteSpace y)))"
  shows "parseInt y = None"
  using parseNumeral_no_digit [OF assms] by (simp add: parseInt_def Let_def)

lemma parseInt_minus:
  assumes "list_all isWhiteSpace ws"
  shows "parseInt (ws @ CHR ''-'' # r) = None \<or> (\<exists>n. parseInt (ws @ CHR ''-'' # r) = Some (- int n))"
proof -
  have S: "dropWhile isWhiteSpace (ws @ CHR ''-'' # r) = CHR ''-'' # r"
    using assms sign_not_space by (simp add: dropWhile_spaces)
  show ?thesis unfolding parseInt_def Let_def S by (simp split: option.splits)
qed

text \<open>
  What \<open>validatePassingYear\<close> computes: it judges the decimal numeral at the start of its
  input. After optional white space and an optional plus sign the longest run of digits is
  read, whatever follows it is ignored, and the result is true exactly when that numeral
  lies between 1970 and 2025; on a plain numeral this is the rule of the specification.
  Input with a minus sign, and input that does not start with a digit (such as
  \<^verbatim>\<open>abcd\<close> or the empty string), evaluates to false.
\<close>

theorem validatePassingYear_leading_numeral:
  "(list_all isWhiteSpace ws \<and> (sg = [] \<or> sg = ''+'') \<and> ds \<noteq> [] \<and> list_all isDecimalDigit ds
      \<and> (rest = [] \<or> (\<not> isDecimalDigit (hd rest) \<and> hd rest \<noteq> CHR ''x'' \<and> hd rest \<noteq> CHR ''X''))
      \<longrightarrow> validatePassingYear (ws @ sg @ ds @ rest) = isValidPassingYear_spec ds)
   \<and> (list_all isWhiteSpace ws \<longrightarrow> \<not> validatePassingYear (ws @ CHR ''-'' # r))
   \<and> (stripSign (dropWhile isWhiteSpace y) = []
        \<or> \<not> isDecimalDigit (hd (stripSign (dropWhile isWhiteSpace y)))
      \<longrightarrow> \<not> validatePassingYear y)"
proof -
  have a: "validatePassingYear (ws @ sg @ ds @ rest) = isValidPassingYear_spec ds"
    if "list_all isWhiteSpace ws" "sg = [] \<or> sg = ''+''" "ds \<noteq> []" "list_all isDecimalDigit ds"
      "rest = [] \<or> (\<not> isDecimalDigit (hd rest) \<and> hd rest \<noteq> CHR ''x'' \<and> hd rest \<noteq> CHR ''X'')"
    using parseInt_numeral [OF that] that(3,4)
    by (simp add: validatePassingYear_def isValidPassingYear_spec_def)
  have b: "\<not> validatePassingYear (ws @ CHR ''-'' # r)" if "list_all isWhiteSpace ws"
    using parseInt_minus [OF that, of r] by (auto simp add: validatePassingYear_def)
  have c: "\<not> validatePassingYear y"
    if "stripSign (dropWhile isWhiteSpace y) = []
        \<or> \<not> isDecimalDigit (hd (stripSign (dropWhile isWhiteSpace y)))"
    using parseInt_no_digit [OF that] by (simp add: validatePassingYear_def)
  show ?thesis using a b c by blast
qed

theorem validatePassingYear_examples:
  "validatePassingYear ''1970'' \<and> \<not> validatePassingYear ''2026'' \<and> \<not> validatePassingYear ''abcd''
   \<and> validatePassingYear ''2025.9'' \<and> \<not> validatePassingYear ''-1999''"
  using validatePassingYear_leading_numeral [of "[]" "[]" "''1970''" "[]" "''1999''" "''abcd''"]
    validatePassingYear_leading_numeral [of "[]" "[]" "''2026''" "[]" "''1999''" "''abcd''"]
    validatePassingYear_leading_numeral [of "[]" "[]" "''2025''" "''.9''" "''1999''" "''abcd''"]
  by (simp add: isValidPassingYear_spec_def isDecimalDigit_def numeralValue_def digitValue_def
      stripSign_def isWhiteSpace_def)

text \<open>
  Claim C3 says that \<open>validatePassingYear\<close> is true exactly on numeric input in the range
  and false on input that is not numeric. The input \<^verbatim>\<open>1999abc\<close> is not numeric, yet
  \<^verbatim>\<open>parseInt\<close> reads 1999 from it and it is accepted; likewise \<^verbatim>\<open>2025.9\<close>, a value
  above 2025, is accepted as 2025.
\<close>

theorem validatePassingYear_accepts_trailing_text:
  "validatePassingYear ''1999abc'' \<and> \<not> isValidPassingYear_spec ''1999abc''
   \<and> validatePassingYear ''2025.9''"
  by (simp add: validatePassingYear_def parseInt_def parseNumeral_def stripSign_def isWhiteSpace_def
      isRadixDigit_def digitValue_def numeralValue_def isValidPassingYear_spec_def
      isDecimalDigit_def Let_def)

end
